theory Spec2Isabelle
  imports Complex_Main "HOL-Library.AList"
begin

section \<open>Data model\<close>

text \<open>
  Shallow embedding of the photo ingestion and export services
  (\<^verbatim>\<open>src/api/models\<close>, \<^verbatim>\<open>src/api/services\<close>, \<^verbatim>\<open>src/api/routes\<close>).
  Python \<^verbatim>\<open>float\<close> values are idealised as \<^typ>\<open>real\<close>, Python \<^verbatim>\<open>int\<close> as \<^typ>\<open>int\<close>,
  \<^verbatim>\<open>bytes\<close> as a list of octets, and a \<^verbatim>\<open>datetime\<close> as a number of microseconds on
  the UTC time line.  A value read from a clock, a random source or another library
  (\<^verbatim>\<open>datetime.utcnow()\<close>, \<^verbatim>\<open>uuid.uuid4()\<close>, \<^verbatim>\<open>hashlib\<close>, PIL, the database and the blob
  store) is a parameter of the function that reads it.
\<close>

type_synonym bytes = "nat list"
type_synonym datetime = int

definition timedelta_hours :: "int \<Rightarrow> int" where
  "timedelta_hours h = h * 3600 * 1000000"

text \<open>\<^verbatim>\<open>models/photo.py\<close>: \<^verbatim>\<open>class JobStatus(str, Enum)\<close>.\<close>

datatype JobStatus = PENDING | QUEUED | PROCESSING | COMPLETED | FAILED | CANCELLED

fun JobStatus_value :: "JobStatus \<Rightarrow> string" where
  "JobStatus_value PENDING = ''pending''"
| "JobStatus_value QUEUED = ''queued''"
| "JobStatus_value PROCESSING = ''processing''"
| "JobStatus_value COMPLETED = ''completed''"
| "JobStatus_value FAILED = ''failed''"
| "JobStatus_value CANCELLED = ''cancelled''"

text \<open>\<^verbatim>\<open>models/export.py\<close>: \<^verbatim>\<open>CoordinateSystem\<close> and \<^verbatim>\<open>ExportFormat\<close>.\<close>

datatype CoordinateSystem = WGS84

datatype ExportFormat = KML | KMZ | ZIP | PHOTOS_ONLY

fun ExportFormat_value :: "ExportFormat \<Rightarrow> string" where
  "ExportFormat_value KML = ''kml''"
| "ExportFormat_value KMZ = ''kmz''"
| "ExportFormat_value ZIP = ''zip''"
| "ExportFormat_value PHOTOS_ONLY = ''photos''"

text \<open>
  \<^verbatim>\<open>models/photo.py\<close>: \<^verbatim>\<open>class Photo(BaseModel)\<close>.  The field \<^verbatim>\<open>id\<close> is written
  \<open>photo_id\<close>; fields whose names the export job also has carry the prefix \<open>photo_\<close>.
\<close>

record Photo =
  photo_id :: string
  filename :: string
  original_filename :: string
  blob_url :: string
  thumbnail_urls :: "(string \<times> string) list option"
  thumbnail_url :: "string option"
  latitude :: real
  longitude :: real
  altitude :: "real option"
  timestamp :: datetime
  upload_timestamp :: datetime
  photo_file_size :: nat
  mime_type :: string
  camera_make :: "string option"
  camera_model :: "string option"
  tags :: "string list"
  description :: "string option"
  uploader_id :: "string option"
  hash_md5 :: string
  processing_status :: string

text \<open>
  \<^verbatim>\<open>models/export.py\<close>: \<^verbatim>\<open>class ExportJob(BaseModel)\<close>.  The field \<^verbatim>\<open>id\<close> is written
  \<open>export_id\<close>.
\<close>

record ExportJob =
  export_id :: string
  export_type :: ExportFormat
  photo_ids :: "string list"
  status :: JobStatus
  coordinate_system :: CoordinateSystem
  include_altitude :: bool
  include_photos_in_kmz :: bool
  include_thumbnails :: bool
  output_filename :: "string option"
  file_path :: "string option"
  file_size :: "int option"
  created_at :: datetime
  updated_at :: datetime
  started_at :: "datetime option"
  completed_at :: "datetime option"
  expires_at :: "datetime option"
  progress :: real
  total_photos :: int
  processed_photos :: int
  error_message :: "string option"
  requester_id :: "string option"

section \<open>The export job model (\<^verbatim>\<open>models/export.py\<close>)\<close>

text \<open>
  \<^verbatim>\<open>ExportJob.__init__\<close> after \<^verbatim>\<open>super().__init__(**data)\<close> has assigned the fields:
  a non-empty id list fixes \<open>total_photos\<close>, a missing expiry defaults to 24 hours after
  creation, a missing (or empty) file name defaults to
  \<^verbatim>\<open>export_<timestamp>.<format>\<close>.  \<open>strftime\<close> stands for
  \<^verbatim>\<open>created_at.strftime("%Y%m%d_%H%M%S")\<close>.
\<close>

definition ExportJob_init :: "(datetime \<Rightarrow> string) \<Rightarrow> ExportJob \<Rightarrow> ExportJob" where
  "ExportJob_init strftime data =
    (let j1 = (if photo_ids data \<noteq> [] then data\<lparr>total_photos := int (length (photo_ids data))\<rparr> else data);
         j2 = (if expires_at j1 = None then j1\<lparr>expires_at := Some (created_at j1 + timedelta_hours 24)\<rparr> else j1);
         j3 = (if output_filename j2 = None \<or> output_filename j2 = Some []
               then j2\<lparr>output_filename :=
                      Some (''export_'' @ strftime (created_at j2) @ ''.'' @ ExportFormat_value (export_type j2))\<rparr>
               else j2)
     in j3)"

text \<open>
  The constructor call of \<^verbatim>\<open>create_export_job\<close>: the keyword arguments it passes, every
  other field at its declared default.  \<open>uuid\<close> is the value of \<^verbatim>\<open>uuid.uuid4()\<close> and
  \<open>now\<close> that of \<^verbatim>\<open>datetime.utcnow()\<close>.
\<close>

definition ExportJob_new ::
  "(datetime \<Rightarrow> string) \<Rightarrow> string \<Rightarrow> datetime \<Rightarrow> string list \<Rightarrow> ExportFormat \<Rightarrow> CoordinateSystem
     \<Rightarrow> bool \<Rightarrow> bool \<Rightarrow> bool \<Rightarrow> string option \<Rightarrow> ExportJob" where
  "ExportJob_new strftime uuid now ids fmt cs alt inkmz thumbs req =
    ExportJob_init strftime
      \<lparr> export_id = uuid, export_type = fmt, photo_ids = ids, status = PENDING,
        coordinate_system = cs, include_altitude = alt, include_photos_in_kmz = inkmz,
        include_thumbnails = thumbs, output_filename = None, file_path = None,
        file_size = None, created_at = now, updated_at = now, started_at = None,
        completed_at = None, expires_at = None, progress = 0, total_photos = 0,
        processed_photos = 0, error_message = None, requester_id = req \<rparr>"

text \<open>\<^verbatim>\<open>ExportJob.update_progress\<close>: a plain setter; the division is Python's true division.\<close>

definition update_progress :: "ExportJob \<Rightarrow> int \<Rightarrow> datetime \<Rightarrow> ExportJob" where
  "update_progress self processed_count now =
    (let j1 = self\<lparr>processed_photos := processed_count\<rparr>;
         j2 = (if total_photos j1 > 0
               then j1\<lparr>progress := (real_of_int processed_count / real_of_int (total_photos j1)) * 100\<rparr>
               else j1)
     in j2\<lparr>updated_at := now\<rparr>)"

definition mark_started :: "ExportJob \<Rightarrow> datetime \<Rightarrow> ExportJob" where
  "mark_started self now = self\<lparr>status := PROCESSING, started_at := Some now, updated_at := now\<rparr>"

definition mark_completed :: "ExportJob \<Rightarrow> string \<Rightarrow> int \<Rightarrow> datetime \<Rightarrow> ExportJob" where
  "mark_completed self path sz now =
    self\<lparr>status := COMPLETED, completed_at := Some now, updated_at := now,
         file_path := Some path, file_size := Some sz, progress := 100\<rparr>"

definition mark_failed :: "ExportJob \<Rightarrow> string \<Rightarrow> datetime \<Rightarrow> ExportJob" where
  "mark_failed self msg now = self\<lparr>status := FAILED, error_message := Some msg, updated_at := now\<rparr>"


text \<open>A job of two photos, as \<^verbatim>\<open>create_export_job\<close> builds it.\<close>

definition job_of_two :: ExportJob where
  "job_of_two = ExportJob_new (\<lambda>t. ''20240101_120000'') ''job-1'' 0 [''p1'', ''p2''] KMZ WGS84 True True True None"

section \<open>Exceptions\<close>

text \<open>The exceptions the modelled code raises or catches; each carries \<^verbatim>\<open>str(e)\<close>.\<close>

datatype py_error =
    ValueError string
  | KeyError string
  | AttributeError string
  | TypeError string
  | ValidationError string
  | HTTPException nat string
  | Exception string

fun str_of :: "py_error \<Rightarrow> string" where
  "str_of (ValueError m) = m"
| "str_of (KeyError m) = m"
| "str_of (AttributeError m) = m"
| "str_of (TypeError m) = m"
| "str_of (ValidationError m) = m"
| "str_of (HTTPException c m) = m"
| "str_of (Exception m) = m"

section \<open>The export service (\<^verbatim>\<open>services/export_service.py\<close>)\<close>

text \<open>
  The mutable state of an \<^verbatim>\<open>ExportService\<close> and of the local file system it writes to.
  \<open>active_jobs\<close> is the dictionary \<^verbatim>\<open>self.active_jobs\<close> in insertion order, \<open>job_queue\<close>
  the contents of the \<^verbatim>\<open>asyncio.Queue\<close> (head first), \<open>fs\<close> maps an existing path to the
  size of its file, \<open>warnings\<close> collects the \<^verbatim>\<open>logger.warning\<close> lines of
  \<^verbatim>\<open>_validate_photo_ids\<close>.  Every operation runs to completion before the next one starts.
\<close>

record ExportService =
  active_jobs :: "(string \<times> ExportJob) list"
  job_queue :: "string list"
  fs :: "string \<Rightarrow> int option"
  warnings :: "string list"

definition ExportService_new :: ExportService where
  "ExportService_new = \<lparr> active_jobs = [], job_queue = [], fs = (\<lambda>p. None), warnings = [] \<rparr>"

text \<open>
  The attributes \<^verbatim>\<open>ExportService.__init__\<close> assigns; the class body declares no other and
  no code of the repository assigns one from outside.
\<close>

definition ExportService_attributes :: "string list" where
  "ExportService_attributes =
    [''database_service'', ''blob_manager'', ''max_concurrent_jobs'', ''active_jobs'', ''job_queue'',
     ''executor'', ''_processing_task'', ''temp_export_dir'', ''kml_generator'', ''kmz_generator'']"

text \<open>
  What the export service reads from outside: the persistence gateway's \<^verbatim>\<open>get_photo\<close>, the
  HTTP download of a blob (\<^verbatim>\<open>requests.get(...).content\<close>, \<open>None\<close> when it raises), the two
  document generators (an error, or the size of the file written), the name
  \<^verbatim>\<open>NamedTemporaryFile(suffix=...)\<close> returns, the size of a written archive, the removal of a
  file (\<open>True\<close> when \<^verbatim>\<open>os.remove\<close> raises), the blob upload of
  \<^verbatim>\<open>_upload_export_file\<close>, and the two formatted timestamps.
\<close>

record export_env =
  db_get_photo :: "string \<Rightarrow> Photo option"
  http_get :: "string \<Rightarrow> bytes option"
  generate_kml :: "Photo list \<Rightarrow> ExportJob \<Rightarrow> py_error + string"
  generate_kmz :: "Photo list \<Rightarrow> ExportJob \<Rightarrow> py_error + int"
  NamedTemporaryFile :: "string \<Rightarrow> string"
  zip_size :: "(string \<times> bytes) list \<Rightarrow> int"
  os_remove_raises :: "string \<Rightarrow> bool"
  upload_blob :: "string \<Rightarrow> py_error + string"
  strftime :: "datetime \<Rightarrow> string"

text \<open>\<^verbatim>\<open>_validate_photo_ids\<close>: the ids that resolve, in request order, and one warning per
  id that does not.\<close>

fun validate_photo_ids :: "export_env \<Rightarrow> string list \<Rightarrow> string list \<times> string list" where
  "validate_photo_ids env [] = ([], [])"
| "validate_photo_ids env (pid # rest) =
    (let (valid_ids, warns) = validate_photo_ids env rest
     in (case db_get_photo env pid of
           Some photo \<Rightarrow> (pid # valid_ids, warns)
         | None \<Rightarrow> (valid_ids, (''Photo ID '' @ pid @ '' not found, skipping'') # warns)))"

text \<open>\<^verbatim>\<open>create_export_job\<close>: \<open>uuid\<close> and \<open>now\<close> are the values the job's default factories
  draw.  The raised \<^verbatim>\<open>ValueError\<close> is logged and re-raised; the warnings stay logged.\<close>

definition create_export_job ::
  "export_env \<Rightarrow> string \<Rightarrow> datetime \<Rightarrow> string list \<Rightarrow> ExportFormat \<Rightarrow> CoordinateSystem
     \<Rightarrow> bool \<Rightarrow> bool \<Rightarrow> bool \<Rightarrow> string option \<Rightarrow> ExportService
     \<Rightarrow> (py_error + ExportJob) \<times> ExportService" where
  "create_export_job env uuid now ids export_format cs alt inkmz thumbs req self =
    (let (valid_photo_ids, warns) = validate_photo_ids env ids;
         self1 = self\<lparr>warnings := warnings self @ warns\<rparr>
     in if valid_photo_ids = [] then (Inl (ValueError ''No valid photos found for export''), self1)
        else
          (let export_job = ExportJob_new (strftime env) uuid now valid_photo_ids export_format cs alt inkmz thumbs req
           in (Inr export_job,
               self1\<lparr>active_jobs := AList.update (export_id export_job) export_job (active_jobs self1),
                     job_queue := job_queue self1 @ [export_id export_job]\<rparr>)))"

text \<open>\<^verbatim>\<open>get_job_status\<close> and \<^verbatim>\<open>cancel_job\<close>.\<close>

definition get_job_status :: "ExportService \<Rightarrow> string \<Rightarrow> ExportJob option" where
  "get_job_status self job_id = map_of (active_jobs self) job_id"






text \<open>\<^verbatim>\<open>_get_photos_for_export\<close>: the records of the ids that resolve, in order.\<close>

fun get_photos_for_export :: "export_env \<Rightarrow> string list \<Rightarrow> Photo list" where
  "get_photos_for_export env [] = []"
| "get_photos_for_export env (pid # rest) =
    (case db_get_photo env pid of
       Some photo \<Rightarrow> photo # get_photos_for_export env rest
     | None \<Rightarrow> get_photos_for_export env rest)"

text \<open>\<^verbatim>\<open>_make_safe_filename\<close>.\<close>

definition safe_chars :: string where
  "safe_chars = ''abcdefghijklmnopqrstuvwxyzABCDEFGHIJKLMNOPQRSTUVWXYZ0123456789.-_''"

definition make_safe_filename :: "string \<Rightarrow> string" where
  "make_safe_filename fname =
    (let safe_filename = map (\<lambda>c. if c \<in> set safe_chars then c else CHR ''_'') fname
     in if safe_filename = [] then ''photo.jpg'' else safe_filename)"

text \<open>
  \<^verbatim>\<open>_add_photos_to_zip\<close>: \<open>i\<close> is the index \<^verbatim>\<open>enumerate\<close> hands out, \<open>zf\<close> the entries written
  to the archive so far.  A photo whose download raises is logged and passed over, without
  a progress update.
\<close>

fun add_photos_to_zip ::
  "export_env \<Rightarrow> datetime \<Rightarrow> nat \<Rightarrow> Photo list \<Rightarrow> (string \<times> bytes) list \<Rightarrow> ExportJob
     \<Rightarrow> (string \<times> bytes) list \<times> ExportJob" where
  "add_photos_to_zip env now i [] zf job = (zf, job)"
| "add_photos_to_zip env now i (photo # rest) zf job =
    (case http_get env (blob_url photo) of
       None \<Rightarrow> add_photos_to_zip env now (Suc i) rest zf job
     | Some content \<Rightarrow>
         add_photos_to_zip env now (Suc i) rest
           (zf @ [(make_safe_filename (original_filename photo), content)])
           (update_progress job (int i + 1) now))"

definition encode_utf8 :: "string \<Rightarrow> bytes" where
  "encode_utf8 s = map of_char s"

text \<open>
  \<^verbatim>\<open>_generate_kml_export\<close>, \<^verbatim>\<open>_generate_kmz_export\<close>, \<^verbatim>\<open>_generate_zip_export\<close>: the
  temporary file is created first and kept (\<^verbatim>\<open>delete=False\<close>); every exception ends in
  \<^verbatim>\<open>mark_failed\<close>.
\<close>

definition generate_kml_export ::
  "export_env \<Rightarrow> datetime \<Rightarrow> ExportJob \<Rightarrow> Photo list \<Rightarrow> (string \<Rightarrow> int option)
     \<Rightarrow> ExportJob \<times> (string \<Rightarrow> int option)" where
  "generate_kml_export env now job photos files =
    (let temp_file = NamedTemporaryFile env ''.kml''
     in (case generate_kml env photos job of
           Inl e \<Rightarrow> (mark_failed job (''KML export failed: '' @ str_of e) now, files(temp_file \<mapsto> 0))
         | Inr kml_content \<Rightarrow>
             (let fsize = int (length (encode_utf8 kml_content))
              in (mark_completed job temp_file fsize now, files(temp_file \<mapsto> fsize)))))"

definition generate_kmz_export ::
  "export_env \<Rightarrow> datetime \<Rightarrow> ExportJob \<Rightarrow> Photo list \<Rightarrow> (string \<Rightarrow> int option)
     \<Rightarrow> ExportJob \<times> (string \<Rightarrow> int option)" where
  "generate_kmz_export env now job photos files =
    (let temp_file = NamedTemporaryFile env ''.kmz''
     in (case generate_kmz env photos job of
           Inl e \<Rightarrow> (mark_failed job (''KMZ export failed: '' @ str_of e) now, files(temp_file \<mapsto> 0))
         | Inr fsize \<Rightarrow> (mark_completed job temp_file fsize now, files(temp_file \<mapsto> fsize))))"

definition generate_zip_export ::
  "export_env \<Rightarrow> datetime \<Rightarrow> ExportJob \<Rightarrow> Photo list \<Rightarrow> (string \<Rightarrow> int option)
     \<Rightarrow> ExportJob \<times> (string \<Rightarrow> int option)" where
  "generate_zip_export env now job photos files =
    (let temp_file = NamedTemporaryFile env ''.zip''
     in (case generate_kml env photos job of
           Inl e \<Rightarrow> (mark_failed job (''ZIP export failed: '' @ str_of e) now, files(temp_file \<mapsto> 0))
         | Inr kml_content \<Rightarrow>
             (let zf0 = [(''photos.kml'', encode_utf8 kml_content)];
                  (zf, job1) = (if include_photos_in_kmz job
                                then add_photos_to_zip env now 0 photos zf0 job
                                else (zf0, job));
                  fsize = zip_size env zf
              in (mark_completed job1 temp_file fsize now, files(temp_file \<mapsto> fsize)))))"

text \<open>
  \<^verbatim>\<open>_upload_export_file\<close>.  Its first statement after the timestamp formats
  \<^verbatim>\<open>self.export_directory\<close> into the blob path: an attribute lookup on the service, which
  raises \<^verbatim>\<open>AttributeError\<close> for a name that is not an attribute.  Past it, the blob upload
  may raise, and the last statement calls \<^verbatim>\<open>job.mark_completed(download_url, file_size,
  blob_path)\<close> with one argument more than \<^verbatim>\<open>ExportJob.mark_completed\<close> takes, which raises
  \<^verbatim>\<open>TypeError\<close>.  The function logs and re-raises every exception.
\<close>

definition upload_export_file :: "export_env \<Rightarrow> ExportJob \<Rightarrow> string \<Rightarrow> py_error + string \<times> ExportJob" where
  "upload_export_file env job path =
    (if ''export_directory'' \<notin> set ExportService_attributes
     then Inl (AttributeError ''ExportService object has no attribute export_directory'')
     else (case upload_blob env path of
             Inl e \<Rightarrow> Inl e
           | Inr download_url \<Rightarrow>
               Inl (TypeError ''ExportJob.mark_completed() takes 3 positional arguments but 4 were given'')))"

text \<open>\<^verbatim>\<open>_generate_photos_export\<close>: the archive holds the downloaded photos only; the
  temporary file is unlinked after a successful upload.\<close>

definition generate_photos_export ::
  "export_env \<Rightarrow> datetime \<Rightarrow> ExportJob \<Rightarrow> Photo list \<Rightarrow> (string \<Rightarrow> int option)
     \<Rightarrow> ExportJob \<times> (string \<Rightarrow> int option)" where
  "generate_photos_export env now job photos files =
    (let temp_file = NamedTemporaryFile env ''.zip'';
         (zf, job1) = add_photos_to_zip env now 0 photos [] job;
         files1 = files(temp_file \<mapsto> zip_size env zf)
     in (case upload_export_file env job1 temp_file of
           Inl e \<Rightarrow> (mark_failed job1 (''Photos export failed: '' @ str_of e) now, files1)
         | Inr (download_url, job2) \<Rightarrow> (job2, files1(temp_file := None))))"

text \<open>\<^verbatim>\<open>_process_export_job\<close>.\<close>

definition process_export_job ::
  "export_env \<Rightarrow> datetime \<Rightarrow> ExportJob \<Rightarrow> (string \<Rightarrow> int option) \<Rightarrow> ExportJob \<times> (string \<Rightarrow> int option)" where
  "process_export_job env now job0 files =
    (let job = mark_started job0 now;
         photos = get_photos_for_export env (photo_ids job)
     in if photos = [] then (mark_failed job ''No photos found for export'' now, files)
        else (case export_type job of
                KML \<Rightarrow> generate_kml_export env now job photos files
              | KMZ \<Rightarrow> generate_kmz_export env now job photos files
              | ZIP \<Rightarrow> generate_zip_export env now job photos files
              | PHOTOS_ONLY \<Rightarrow> generate_photos_export env now job photos files))"





section \<open>The upload service (\<^verbatim>\<open>services/photo_upload.py\<close>)\<close>

text \<open>
  String operations of Python the service uses, on ASCII text: \<^verbatim>\<open>s.lower()\<close>,
  \<^verbatim>\<open>s.split(c)[-1]\<close>, \<^verbatim>\<open>s.rsplit(c, 1)[0]\<close>, \<^verbatim>\<open>s.lstrip(c)\<close>, \<^verbatim>\<open>s.strip()\<close>,
  \<^verbatim>\<open>s.split(c)\<close> and \<^verbatim>\<open>s[:n]\<close>.
\<close>

definition lower_char :: "char \<Rightarrow> char" where
  "lower_char c =
    (case map_of (zip ''ABCDEFGHIJKLMNOPQRSTUVWXYZ'' ''abcdefghijklmnopqrstuvwxyz'') c of
       None \<Rightarrow> c
     | Some l \<Rightarrow> l)"

definition lower :: "string \<Rightarrow> string" where
  "lower s = map lower_char s"

definition split_last :: "char \<Rightarrow> string \<Rightarrow> string" where
  "split_last c s = rev (takeWhile (\<lambda>x. x \<noteq> c) (rev s))"

definition rsplit_first :: "char \<Rightarrow> string \<Rightarrow> string" where
  "rsplit_first c s = (if c \<in> set s then rev (tl (dropWhile (\<lambda>x. x \<noteq> c) (rev s))) else s)"

definition lstrip_char :: "char \<Rightarrow> string \<Rightarrow> string" where
  "lstrip_char c s = dropWhile (\<lambda>x. x = c) s"

definition is_space :: "char \<Rightarrow> bool" where
  "is_space c = (c \<in> set [CHR '' '', CHR 0x09, CHR 0x0A, CHR 0x0B, CHR 0x0C, CHR 0x0D])"

definition strip :: "string \<Rightarrow> string" where
  "strip s = rev (dropWhile is_space (rev (dropWhile is_space s)))"

fun split_on :: "char \<Rightarrow> string \<Rightarrow> string list" where
  "split_on c [] = [[]]"
| "split_on c (x # xs) =
    (if x = c then [] # split_on c xs
     else (case split_on c xs of [] \<Rightarrow> [[x]] | w # ws \<Rightarrow> (x # w) # ws))"

text \<open>\<^verbatim>\<open>PhotoUploadService.__init__\<close>.\<close>

definition supported_formats :: "(string \<times> string list) list" where
  "supported_formats =
    [(''image/jpeg'', [''.jpg'', ''.jpeg'']),
     (''image/png'', [''.png'']),
     (''image/tiff'', [''.tiff'', ''.tif'']),
     (''image/heic'', [''.heic'', ''.heif'']),
     (''application/octet-stream'', [''.heic'', ''.heif''])]"

definition max_file_size :: nat where
  "max_file_size = 50 * 1024 * 1024"

text \<open>
  What the upload service reads from other libraries: the digest
  \<^verbatim>\<open>hashlib.md5(content).hexdigest()\<close>; PIL's \<^verbatim>\<open>Image.open\<close>, \<^verbatim>\<open>verify\<close>, \<^verbatim>\<open>size\<close> and
  \<^verbatim>\<open>format\<close> (\<open>None\<close> when any of them raises); the EXIF tags PIL and exifread find
  (\<open>None\<close> when reading them raises); and the timestamp formatted into the stored
  file name.
\<close>

record gps_data =
  GPSLatitude :: "real list option"
  GPSLatitudeRef :: "string option"
  GPSLongitude :: "real list option"
  GPSLongitudeRef :: "string option"
  GPSAltitude :: "real option"
  GPSAltitudeRef :: "int option"

record pil_exif =
  GPSInfo :: gps_data
  Make :: "string option"
  Model :: "string option"
  pil_datetime :: "datetime option"

type_synonym ratio = "int \<times> int"

record exifread_tags =
  GPS_GPSLatitude :: "ratio list option"
  GPS_GPSLatitudeRef :: "string option"
  GPS_GPSLongitude :: "ratio list option"
  GPS_GPSLongitudeRef :: "string option"
  GPS_GPSAltitude :: "ratio list option"
  GPS_GPSAltitudeRef :: "int list option"
  Image_Make :: "string option"
  Image_Model :: "string option"
  exifread_datetime :: "datetime option"

record upload_env =
  md5_hexdigest :: "bytes \<Rightarrow> string"
  image_open :: "bytes \<Rightarrow> (nat \<times> nat \<times> string) option"
  pil_getexif :: "bytes \<Rightarrow> pil_exif option"
  exifread_process_file :: "bytes \<Rightarrow> exifread_tags option"
  strftime_upload :: "datetime \<Rightarrow> string"

text \<open>
  \<^verbatim>\<open>validate_file\<close>: the result dictionary, with the warnings logged on the way, or the
  \<^verbatim>\<open>ValueError\<close> raised.
\<close>

record validation_result =
  valid :: bool
  vr_file_size :: nat
  dimensions :: "nat \<times> nat"
  format :: string
  content_type :: string

definition validate_file ::
  "upload_env \<Rightarrow> bytes \<Rightarrow> string \<Rightarrow> string \<Rightarrow> py_error + validation_result \<times> string list" where
  "validate_file env file_content fname ctype =
    (if length file_content > max_file_size
     then Inl (ValueError ''File size exceeds maximum'')
     else (case map_of supported_formats ctype of
             None \<Rightarrow> Inl (ValueError (''Unsupported file type: '' @ ctype))
           | Some expected_extensions \<Rightarrow>
               (let file_ext = (if CHR ''.'' \<in> set fname then split_last CHR ''.'' (lower fname) else []);
                    warns = (if \<not> list_ex (\<lambda>ext. file_ext = lstrip_char CHR ''.'' ext) expected_extensions
                             then [''File extension .'' @ file_ext @ '' doesn't match content type '' @ ctype]
                             else [])
                in (case image_open env file_content of
                      None \<Rightarrow> Inl (ValueError ''Invalid or corrupted image file'')
                    | Some (width, height, format_name) \<Rightarrow>
                        Inr (\<lparr> valid = True, vr_file_size = length file_content,
                               dimensions = (width, height), format = format_name,
                               content_type = ctype \<rparr>, warns)))))"

text \<open>\<^verbatim>\<open>calculate_file_hash\<close>.\<close>

definition calculate_file_hash :: "upload_env \<Rightarrow> bytes \<Rightarrow> string" where
  "calculate_file_hash env file_content = md5_hexdigest env file_content"

text \<open>
  \<^verbatim>\<open>_parse_gps_coordinates\<close>: unpacking a value that is not a triple raises, and any
  exception gives \<^verbatim>\<open>(None, None, None)\<close>.
\<close>

definition parse_gps_coordinates :: "gps_data \<Rightarrow> real option \<times> real option \<times> real option" where
  "parse_gps_coordinates gps =
    (let lat = (case (GPSLatitude gps, GPSLatitudeRef gps) of
                  (Some v, Some ref) \<Rightarrow>
                    (case v of
                       [lat_deg, lat_min, lat_sec] \<Rightarrow>
                         (let l = lat_deg + lat_min / 60 + lat_sec / 3600
                          in Inr (Some (if ref = ''S'' then - l else l)))
                     | _ \<Rightarrow> Inl (ValueError ''cannot unpack''))
                | _ \<Rightarrow> Inr None);
         lon = (case (GPSLongitude gps, GPSLongitudeRef gps) of
                  (Some v, Some ref) \<Rightarrow>
                    (case v of
                       [lon_deg, lon_min, lon_sec] \<Rightarrow>
                         (let l = lon_deg + lon_min / 60 + lon_sec / 3600
                          in Inr (Some (if ref = ''W'' then - l else l)))
                     | _ \<Rightarrow> Inl (ValueError ''cannot unpack''))
                | _ \<Rightarrow> Inr None);
         alt = (case GPSAltitude gps of
                  Some a \<Rightarrow> Some (if GPSAltitudeRef gps = Some 1 then - a else a)
                | None \<Rightarrow> None)
     in (case (lat, lon) of
           (Inr la, Inr lo) \<Rightarrow> (la, lo, alt)
         | _ \<Rightarrow> (None, None, None)))"

text \<open>
  \<^verbatim>\<open>_convert_to_degrees\<close> on the \<^verbatim>\<open>values\<close> of an exifread tag: a missing component or a
  zero denominator raises, and any exception gives \<^verbatim>\<open>None\<close>.
\<close>

definition ratio_float :: "ratio \<Rightarrow> real option" where
  "ratio_float r = (if snd r = 0 then None else Some (real_of_int (fst r) / real_of_int (snd r)))"

definition convert_to_degrees :: "ratio list \<Rightarrow> real option" where
  "convert_to_degrees vals =
    (case vals of
       v0 # v1 # v2 # _ \<Rightarrow>
         (case (ratio_float v0, ratio_float v1, ratio_float v2) of
            (Some d, Some m, Some s) \<Rightarrow> Some (d + (m / 60) + (s / 3600))
          | _ \<Rightarrow> None)
     | _ \<Rightarrow> None)"

text \<open>Python's truth value of an optional float: \<^verbatim>\<open>None\<close> and \<^verbatim>\<open>0.0\<close> are false.\<close>

definition truthy :: "real option \<Rightarrow> bool" where
  "truthy x = (case x of None \<Rightarrow> False | Some v \<Rightarrow> v \<noteq> 0)"

text \<open>
  The dictionary both extraction passes return when they do not raise (the PIL pass adds
  \<^verbatim>\<open>camera_settings\<close>, which nothing modelled here reads); \<open>None\<close> stands for the empty
  dictionary they return when they do.
\<close>

record exif_data =
  exif_latitude :: "real option"
  exif_longitude :: "real option"
  exif_altitude :: "real option"
  exif_camera_make :: "string option"
  exif_camera_model :: "string option"
  exif_datetime_taken :: "datetime option"

definition strip_or_none :: "string option \<Rightarrow> string option" where
  "strip_or_none v = (let s = strip (case v of None \<Rightarrow> [] | Some x \<Rightarrow> x) in if s = [] then None else Some s)"

definition extract_exif_pil :: "upload_env \<Rightarrow> bytes \<Rightarrow> exif_data option" where
  "extract_exif_pil env file_content =
    (case pil_getexif env file_content of
       None \<Rightarrow> None
     | Some exif_dict \<Rightarrow>
         (let (la, lo, al) = parse_gps_coordinates (GPSInfo exif_dict)
          in Some \<lparr> exif_latitude = la, exif_longitude = lo, exif_altitude = al,
                    exif_camera_make = strip_or_none (Make exif_dict),
                    exif_camera_model = strip_or_none (Model exif_dict),
                    exif_datetime_taken = pil_datetime exif_dict \<rparr>))"

definition extract_exif_exifread :: "upload_env \<Rightarrow> bytes \<Rightarrow> exif_data option" where
  "extract_exif_exifread env file_content =
    (case exifread_process_file env file_content of
       None \<Rightarrow> None
     | Some tgs \<Rightarrow>
         (let la = (case (GPS_GPSLatitude tgs, GPS_GPSLatitudeRef tgs) of
                      (Some v, Some ref) \<Rightarrow>
                        (let lat_deg = convert_to_degrees v
                         in if truthy lat_deg \<and> ref = ''S'' then map_option uminus lat_deg else lat_deg)
                    | _ \<Rightarrow> None);
              lo = (case (GPS_GPSLongitude tgs, GPS_GPSLongitudeRef tgs) of
                      (Some v, Some ref) \<Rightarrow>
                        (let lon_deg = convert_to_degrees v
                         in if truthy lon_deg \<and> ref = ''W'' then map_option uminus lon_deg else lon_deg)
                    | _ \<Rightarrow> None);
              al = (case GPS_GPSAltitude tgs of
                      None \<Rightarrow> Inr None
                    | Some [] \<Rightarrow> Inl (Exception ''list index out of range'')
                    | Some (altitude_val # _) \<Rightarrow>
                        (case ratio_float altitude_val of
                           None \<Rightarrow> Inl (Exception ''float division by zero'')
                         | Some a \<Rightarrow>
                             (case GPS_GPSAltitudeRef tgs of
                                None \<Rightarrow> Inr (Some a)
                              | Some [] \<Rightarrow> Inl (Exception ''list index out of range'')
                              | Some (r # _) \<Rightarrow> Inr (Some (if r = 1 then - a else a)))))
          in (case al of
                Inl e \<Rightarrow> None
              | Inr al' \<Rightarrow>
                  Some \<lparr> exif_latitude = la, exif_longitude = lo, exif_altitude = al',
                         exif_camera_make = strip_or_none (Image_Make tgs),
                         exif_camera_model = strip_or_none (Image_Model tgs),
                         exif_datetime_taken = exifread_datetime tgs \<rparr>)))"

text \<open>\<^verbatim>\<open>extract_exif_data\<close>: the exifread pass is consulted when the PIL pass has no
  (true) latitude or longitude, and replaces it when it has a (true) latitude where the
  PIL pass has none.\<close>

definition get_latitude :: "exif_data option \<Rightarrow> real option" where
  "get_latitude d = (case d of None \<Rightarrow> None | Some r \<Rightarrow> exif_latitude r)"

definition get_longitude :: "exif_data option \<Rightarrow> real option" where
  "get_longitude d = (case d of None \<Rightarrow> None | Some r \<Rightarrow> exif_longitude r)"

definition get_altitude :: "exif_data option \<Rightarrow> real option" where
  "get_altitude d = (case d of None \<Rightarrow> None | Some r \<Rightarrow> exif_altitude r)"

definition extract_exif_data :: "upload_env \<Rightarrow> bytes \<Rightarrow> exif_data option" where
  "extract_exif_data env file_content =
    (let exif = extract_exif_pil env file_content
     in if \<not> truthy (get_latitude exif) \<or> \<not> truthy (get_longitude exif)
        then (let exifread_data = extract_exif_exifread env file_content
              in if \<not> truthy (get_latitude exif) \<and> truthy (get_latitude exifread_data)
                 then exifread_data else exif)
        else exif)"

text \<open>\<^verbatim>\<open>validate_coordinates\<close>; the altitude check only logs.\<close>

definition validate_coordinates :: "real \<Rightarrow> real \<Rightarrow> real option \<Rightarrow> py_error + real \<times> real \<times> real option" where
  "validate_coordinates la lo al =
    (if \<not> (- 90 \<le> la \<and> la \<le> 90) then Inl (ValueError ''Latitude is out of valid range (-90 to 90)'')
     else if \<not> (- 180 \<le> lo \<and> lo \<le> 180) then Inl (ValueError ''Longitude is out of valid range (-180 to 180)'')
     else Inr (la, lo, al))"

text \<open>
  The dictionary \<^verbatim>\<open>process_upload\<close> returns (\<^verbatim>\<open>photo_data\<close>), its keys prefixed \<open>pd_\<close>,
  and the optional dictionary of manual coordinates (\<open>None\<close> for \<^verbatim>\<open>None\<close> and for the
  empty dictionary, both false in Python).
\<close>

record manual_coordinates =
  manual_latitude :: "real option"
  manual_longitude :: "real option"
  manual_altitude :: "real option"

record photo_data =
  pd_filename :: string
  pd_original_filename :: string
  pd_latitude :: "real option"
  pd_longitude :: "real option"
  pd_altitude :: "real option"
  pd_timestamp :: "datetime option"
  pd_file_size :: nat
  pd_mime_type :: string
  pd_camera_make :: "string option"
  pd_camera_model :: "string option"
  pd_tags :: "string list"
  pd_description :: "string option"
  pd_uploader_id :: "string option"
  pd_hash_md5 :: string
  pd_processing_status :: string
  pd_coordinate_source :: string
  pd_file_content :: bytes
  pd_validation_result :: validation_result

definition no_coordinates_error :: py_error where
  "no_coordinates_error =
    ValueError ''No valid GPS coordinates found in EXIF data and no manual coordinates provided''"

text \<open>\<^verbatim>\<open>process_upload\<close>; \<open>now\<close> is the value of \<^verbatim>\<open>datetime.utcnow()\<close>.\<close>

definition process_upload ::
  "upload_env \<Rightarrow> datetime \<Rightarrow> bytes \<Rightarrow> string \<Rightarrow> string \<Rightarrow> manual_coordinates option
     \<Rightarrow> string list option \<Rightarrow> string option \<Rightarrow> string option \<Rightarrow> py_error + photo_data" where
  "process_upload env now file_content fname ctype manual tgs descr uploader =
    (case validate_file env file_content fname ctype of
       Inl e \<Rightarrow> Inl e
     | Inr (validation, warns) \<Rightarrow>
         (let file_hash = calculate_file_hash env file_content;
              exif = extract_exif_data env file_content;
              (la, lo, al, coordinate_source) =
                (case manual of
                   Some m \<Rightarrow> (manual_latitude m, manual_longitude m, manual_altitude m, ''manual'')
                 | None \<Rightarrow>
                     if truthy (get_latitude exif) \<and> truthy (get_longitude exif)
                     then (get_latitude exif, get_longitude exif, get_altitude exif, ''exif'')
                     else (None, None, None, ''none''))
          in (case (la, lo) of
                (Some la', Some lo') \<Rightarrow>
                  (case validate_coordinates la' lo' al of
                     Inl e \<Rightarrow> Inl e
                   | Inr checked \<Rightarrow>
                       (let file_extension = (if CHR ''.'' \<in> set fname then split_last CHR ''.'' fname else ''jpg'');
                            unique_filename = ''photo_'' @ strftime_upload env now @ ''_'' @ take 8 file_hash
                                                @ ''.'' @ file_extension
                        in Inr \<lparr> pd_filename = unique_filename,
                                 pd_original_filename = fname,
                                 pd_latitude = la, pd_longitude = lo, pd_altitude = al,
                                 pd_timestamp = (case exif of None \<Rightarrow> Some now
                                                 | Some r \<Rightarrow> exif_datetime_taken r),
                                 pd_file_size = length file_content,
                                 pd_mime_type = ctype,
                                 pd_camera_make = (case exif of None \<Rightarrow> None | Some r \<Rightarrow> exif_camera_make r),
                                 pd_camera_model = (case exif of None \<Rightarrow> None | Some r \<Rightarrow> exif_camera_model r),
                                 pd_tags = (case tgs of None \<Rightarrow> [] | Some t \<Rightarrow> t),
                                 pd_description = descr,
                                 pd_uploader_id = uploader,
                                 pd_hash_md5 = file_hash,
                                 pd_processing_status = ''pending'',
                                 pd_coordinate_source = coordinate_source,
                                 pd_file_content = file_content,
                                 pd_validation_result = validation \<rparr>))
              | _ \<Rightarrow> Inl no_coordinates_error)))"

section \<open>The ingestion worker (\<^verbatim>\<open>services/photo_processor.py\<close>)\<close>

text \<open>\<^verbatim>\<open>class ProcessingStatus(str, Enum)\<close> and the job dictionary of
  \<^verbatim>\<open>queue_photo_for_processing\<close>.\<close>

datatype ProcessingStatus = PS_PENDING | PS_PROCESSING | PS_COMPLETED | PS_FAILED | PS_RETRY

record ProcessingJob =
  job_id :: string
  job_photo_data :: photo_data
  job_status :: ProcessingStatus
  job_created_at :: datetime
  retry_count :: nat
  job_error_message :: "string option"
  job_photo_id :: "string option"
  job_completed_at :: "datetime option"
  job_failed_at :: "datetime option"

text \<open>
  The state the upload route and the worker share: the photo collection of the database
  in insertion order, the processing queue (head first), whether a processor is
  registered with the processing manager, and two records of what the worker did: the
  seconds of every \<^verbatim>\<open>asyncio.sleep\<close> and the arguments of every
  \<^verbatim>\<open>delete_photo_and_thumbnails\<close> call.
\<close>

record pipeline_state =
  photos_collection :: "Photo list"
  processing_queue :: "ProcessingJob list"
  processor_registered :: bool
  slept :: "nat list"
  cleanup_calls :: "(string \<times> datetime option) list"

definition max_retries :: nat where
  "max_retries = 3"

definition retry_delay :: nat where
  "retry_delay = 5"

text \<open>
  What the worker reads from outside: the two PIL re-encodings (\<open>None\<close> when they raise),
  the blob upload with its 120 second timeout, and whether the database insert raises.
\<close>

record upload_result =
  photo_url :: string
  result_thumbnail_urls :: "(string \<times> string) list"

record processor_env =
  heic_to_jpeg :: "bytes \<Rightarrow> bytes option"
  optimize_large :: "bytes \<Rightarrow> bytes option"
  upload_photo_with_thumbnail :: "bytes \<Rightarrow> string \<Rightarrow> datetime option \<Rightarrow> string \<Rightarrow> bool \<Rightarrow> py_error + upload_result"
  create_photo_raises :: "Photo \<Rightarrow> py_error option"
  strftime_job :: "datetime \<Rightarrow> string"

text \<open>\<^verbatim>\<open>queue_photo_for_processing\<close>.\<close>

definition queue_photo_for_processing ::
  "processor_env \<Rightarrow> datetime \<Rightarrow> photo_data \<Rightarrow> pipeline_state \<Rightarrow> string \<times> pipeline_state" where
  "queue_photo_for_processing env now pd st =
    (let jid = ''job_'' @ strftime_job env now @ ''_'' @ take 8 (pd_hash_md5 pd);
         job = \<lparr> job_id = jid, job_photo_data = pd, job_status = PS_PENDING, job_created_at = now,
                 retry_count = 0, job_error_message = None, job_photo_id = None,
                 job_completed_at = None, job_failed_at = None \<rparr>
     in (jid, st\<lparr>processing_queue := processing_queue st @ [job]\<rparr>))"

text \<open>\<^verbatim>\<open>_convert_image_format\<close> and \<^verbatim>\<open>_optimize_large_image\<close>: a failed re-encoding gives
  the original back, unconverted.\<close>

record conversion =
  converted :: bool
  conv_content :: bytes
  conv_mime_type :: string
  conv_filename :: string

definition optimize_large_image :: "processor_env \<Rightarrow> bytes \<Rightarrow> string \<Rightarrow> string \<Rightarrow> conversion" where
  "optimize_large_image env file_content mime fname =
    (case optimize_large env file_content of
       Some optimized \<Rightarrow> \<lparr> converted = True, conv_content = optimized, conv_mime_type = ''image/jpeg'',
                            conv_filename = fname \<rparr>
     | None \<Rightarrow> \<lparr> converted = False, conv_content = file_content, conv_mime_type = mime,
                  conv_filename = fname \<rparr>)"

definition convert_image_format :: "processor_env \<Rightarrow> bytes \<Rightarrow> string \<Rightarrow> string \<Rightarrow> conversion" where
  "convert_image_format env file_content mime fname =
    (if mime \<notin> set [''image/heic'', ''image/heif'']
     then (if length file_content > 10 * 1024 * 1024
           then optimize_large_image env file_content mime fname
           else \<lparr> converted = False, conv_content = file_content, conv_mime_type = mime,
                   conv_filename = fname \<rparr>)
     else (case heic_to_jpeg env file_content of
             Some jpeg \<Rightarrow> \<lparr> converted = True, conv_content = jpeg, conv_mime_type = ''image/jpeg'',
                             conv_filename = rsplit_first CHR ''.'' fname @ ''.jpg'' \<rparr>
           | None \<Rightarrow> \<lparr> converted = False, conv_content = file_content, conv_mime_type = mime,
                        conv_filename = fname \<rparr>))"

text \<open>
  The \<^verbatim>\<open>try\<close> block of \<^verbatim>\<open>_process_photo_job\<close>: the photo data as the steps left it, and
  the record saved or the exception of the step that failed.  \<open>uuid\<close> and \<open>now\<close> are the
  values the default factories of \<^verbatim>\<open>Photo\<close> draw; the model refuses a missing latitude,
  longitude or timestamp, as the field types of \<^verbatim>\<open>Photo\<close> do.
\<close>

definition run_pipeline ::
  "processor_env \<Rightarrow> string \<Rightarrow> datetime \<Rightarrow> photo_data \<Rightarrow> photo_data \<times> (py_error + Photo)" where
  "run_pipeline env uuid now pd0 =
    (let processed = convert_image_format env (pd_file_content pd0) (pd_mime_type pd0) (pd_filename pd0);
         pd = (if converted processed
               then pd0\<lparr>pd_file_content := conv_content processed, pd_mime_type := conv_mime_type processed,
                        pd_filename := conv_filename processed\<rparr>
               else pd0);
         coordinate_error =
           (if truthy (pd_latitude pd) \<and> truthy (pd_longitude pd)
            then (case (pd_latitude pd, pd_longitude pd) of
                    (Some la, Some lo) \<Rightarrow>
                      (case validate_coordinates la lo (pd_altitude pd) of
                         Inl e \<Rightarrow> Some e
                       | Inr checked \<Rightarrow> None)
                  | _ \<Rightarrow> None)
            else None)
     in (case coordinate_error of
           Some e \<Rightarrow> (pd, Inl e)
         | None \<Rightarrow>
             (let generate_thumbnails = (length (pd_file_content pd) < 10 * 1024 * 1024)
              in (case upload_photo_with_thumbnail env (pd_file_content pd) (pd_filename pd) (pd_timestamp pd)
                         (pd_mime_type pd) generate_thumbnails of
                    Inl e \<Rightarrow> (pd, Inl e)
                  | Inr res \<Rightarrow>
                      (case (pd_latitude pd, pd_longitude pd, pd_timestamp pd) of
                         (Some la, Some lo, Some ts) \<Rightarrow>
                           (let photo = \<lparr> photo_id = uuid, filename = pd_filename pd,
                                          original_filename = pd_original_filename pd,
                                          blob_url = photo_url res,
                                          thumbnail_urls = Some (result_thumbnail_urls res),
                                          thumbnail_url = map_of (result_thumbnail_urls res) ''medium'',
                                          latitude = la, longitude = lo, altitude = pd_altitude pd,
                                          timestamp = ts, upload_timestamp = now,
                                          photo_file_size = pd_file_size pd, mime_type = pd_mime_type pd,
                                          camera_make = pd_camera_make pd, camera_model = pd_camera_model pd,
                                          tags = pd_tags pd, description = pd_description pd,
                                          uploader_id = pd_uploader_id pd, hash_md5 = pd_hash_md5 pd,
                                          processing_status = ''completed'' \<rparr>
                            in (case create_photo_raises env photo of
                                  Some e \<Rightarrow> (pd, Inl e)
                                | None \<Rightarrow> (pd, Inr photo)))
                       | _ \<Rightarrow> (pd, Inl (ValidationError ''validation error for Photo'')))))))"

text \<open>
  \<^verbatim>\<open>_process_photo_job\<close>: the job and the photo data are the objects the queue holds, so
  the job put back for a retry carries every change made to them.  An exception of the
  blob cleanup is logged and dropped.
\<close>

definition process_photo_job ::
  "processor_env \<Rightarrow> string \<Rightarrow> datetime \<Rightarrow> ProcessingJob \<Rightarrow> pipeline_state \<Rightarrow> ProcessingJob \<times> pipeline_state" where
  "process_photo_job env uuid now job0 st =
    (let (pd, outcome) = run_pipeline env uuid now (job_photo_data job0);
         job = job0\<lparr>job_status := PS_PROCESSING, job_photo_data := pd\<rparr>
     in (case outcome of
           Inr photo \<Rightarrow>
             (job\<lparr>job_status := PS_COMPLETED, job_photo_id := Some (photo_id photo),
                   job_completed_at := Some now\<rparr>,
              st\<lparr>photos_collection := photos_collection st @ [photo]\<rparr>)
         | Inl e \<Rightarrow>
             (let job1 = job\<lparr>retry_count := retry_count job + 1, job_error_message := Some (str_of e)\<rparr>
              in if retry_count job1 < max_retries
                 then (let job2 = job1\<lparr>job_status := PS_RETRY\<rparr>
                       in (job2, st\<lparr>slept := slept st @ [retry_delay * retry_count job2],
                                     processing_queue := processing_queue st @ [job2]\<rparr>))
                 else (job1\<lparr>job_status := PS_FAILED, job_failed_at := Some now\<rparr>,
                       st\<lparr>cleanup_calls := cleanup_calls st @ [(pd_filename pd, pd_timestamp pd)]\<rparr>))))"

text \<open>
  \<^verbatim>\<open>start_processing\<close>: one iteration takes the job at the head of the queue (and waits
  on an empty queue); \<open>run_worker\<close> is \<open>n\<close> iterations, the \<open>k\<close>-th drawing \<open>uuids k\<close> and
  \<open>clock k\<close>.
\<close>

definition worker_step :: "processor_env \<Rightarrow> string \<Rightarrow> datetime \<Rightarrow> pipeline_state \<Rightarrow> pipeline_state" where
  "worker_step env uuid now st =
    (case processing_queue st of
       [] \<Rightarrow> st
     | job # rest \<Rightarrow> snd (process_photo_job env uuid now job (st\<lparr>processing_queue := rest\<rparr>)))"

fun run_worker ::
  "processor_env \<Rightarrow> (nat \<Rightarrow> string) \<Rightarrow> (nat \<Rightarrow> datetime) \<Rightarrow> nat \<Rightarrow> nat \<Rightarrow> pipeline_state \<Rightarrow> pipeline_state" where
  "run_worker env uuids clock k 0 st = st"
| "run_worker env uuids clock k (Suc n) st =
    run_worker env uuids clock (Suc k) n (worker_step env (uuids k) (clock k) st)"

section \<open>The upload route (\<^verbatim>\<open>routes/photos.py\<close>)\<close>

text \<open>
  \<^verbatim>\<open>MongoPhotoService.get_photos_by_hash\<close> on the collection, and \<^verbatim>\<open>upload_photo\<close>: the
  response, or the \<^verbatim>\<open>HTTPException\<close> raised, with the state left behind.
\<close>

definition get_photos_by_hash :: "Photo list \<Rightarrow> string \<Rightarrow> Photo list" where
  "get_photos_by_hash photos h = filter (\<lambda>p. hash_md5 p = h) photos"

datatype upload_response =
    Duplicate string
  | Queued string photo_data

definition upload_photo ::
  "upload_env \<Rightarrow> processor_env \<Rightarrow> datetime \<Rightarrow> bytes \<Rightarrow> string \<Rightarrow> string \<Rightarrow> string option
     \<Rightarrow> string option \<Rightarrow> string option \<Rightarrow> pipeline_state \<Rightarrow> (py_error + upload_response) \<times> pipeline_state" where
  "upload_photo uenv penv now file_content fname ctype tgs descr uploader st =
    (case process_upload uenv now file_content fname ctype None
            (case tgs of None \<Rightarrow> None | Some t \<Rightarrow> if t = [] then None else Some (split_on CHR '','' t))
            descr uploader of
       Inl e \<Rightarrow> (Inl (HTTPException 400 (str_of e)), st)
     | Inr pd \<Rightarrow>
         (case get_photos_by_hash (photos_collection st) (pd_hash_md5 pd) of
            existing # others \<Rightarrow> (Inr (Duplicate (photo_id existing)), st)
          | [] \<Rightarrow>
              if \<not> processor_registered st
              then (Inl (HTTPException 500 ''Failed to upload photo''), st)
              else (let (jid, st') = queue_photo_for_processing penv now pd st
                    in (Inr (Queued jid pd), st'))))"

section \<open>Example data\<close>

text \<open>
  A database of two photos \<open>p1\<close> and \<open>p2\<close>, an environment in which every download and
  every generator succeeds, and the service after an export of \<open>p1\<close>, \<open>p2\<close> and the
  unknown id \<open>p9\<close> was requested.
\<close>

definition example_photo :: "string \<Rightarrow> Photo" where
  "example_photo pid =
    \<lparr> photo_id = pid, filename = ''photo_20240101_120000_'' @ pid @ ''.jpg'',
      original_filename = ''IMG '' @ pid @ ''.jpg'',
      blob_url = ''https://blobs.example/uploads/2024/01/'' @ pid @ ''.jpg'',
      thumbnail_urls = None, thumbnail_url = None,
      latitude = 39.0269, longitude = - 86.948, altitude = None,
      timestamp = 0, upload_timestamp = 0, photo_file_size = 3, mime_type = ''image/jpeg'',
      camera_make = None, camera_model = None, tags = [], description = None, uploader_id = None,
      hash_md5 = ''0cc175b9c0f1b6a831c399e269772661'', processing_status = ''completed'' \<rparr>"

definition example_export_env :: export_env where
  "example_export_env =
    \<lparr> db_get_photo = (\<lambda>pid. if pid \<in> set [''p1'', ''p2''] then Some (example_photo pid) else None),
      http_get = (\<lambda>url. Some [255, 216, 255]),
      generate_kml = (\<lambda>photos job. Inr ''<kml/>''),
      generate_kmz = (\<lambda>photos job. Inr 2048),
      NamedTemporaryFile = (\<lambda>suffix. ''/tmp/tmpab12'' @ suffix),
      zip_size = (\<lambda>zf. 100 + int (length zf)),
      os_remove_raises = (\<lambda>p. False),
      upload_blob = (\<lambda>p. Inr ''https://blobs.example/exports/x.zip''),
      strftime = (\<lambda>t. ''20240101_120000'') \<rparr>"

definition example_request :: "ExportFormat \<Rightarrow> (py_error + ExportJob) \<times> ExportService" where
  "example_request fmt =
    create_export_job example_export_env ''job-1'' 0 [''p1'', ''p9'', ''p2''] fmt WGS84 True True True None
      ExportService_new"






text \<open>
  An upload environment for a four-byte stand-in of a JPEG file: PIL opens it (and
  nothing else), and finds the EXIF GPS tags given; exifread finds none.  The first
  position is 39 deg 1 min 36.84 sec N, 86 deg 56 min 52.8 sec W (39.0269, -86.948); the
  second lies on the equator, at 10 deg E.  The processor environments are one whose
  blob upload always times out and one in which every step succeeds.
\<close>

definition example_jpeg :: bytes where
  "example_jpeg = [255, 216, 255, 224]"

definition example_gps :: gps_data where
  "example_gps =
    \<lparr> GPSLatitude = Some [39, 1, 36.84], GPSLatitudeRef = Some ''N'',
      GPSLongitude = Some [86, 56, 52.8], GPSLongitudeRef = Some ''W'',
      GPSAltitude = Some 230, GPSAltitudeRef = Some 0 \<rparr>"

definition equator_gps :: gps_data where
  "equator_gps =
    \<lparr> GPSLatitude = Some [0, 0, 0], GPSLatitudeRef = Some ''N'',
      GPSLongitude = Some [10, 0, 0], GPSLongitudeRef = Some ''E'',
      GPSAltitude = None, GPSAltitudeRef = None \<rparr>"

definition example_upload_env :: "gps_data \<Rightarrow> upload_env" where
  "example_upload_env gps =
    \<lparr> md5_hexdigest = (\<lambda>c. if c = example_jpeg then ''0cc175b9c0f1b6a831c399e269772661''
                             else ''d41d8cd98f00b204e9800998ecf8427e''),
      image_open = (\<lambda>c. if c = example_jpeg then Some (640, 480, ''JPEG'') else None),
      pil_getexif = (\<lambda>c. Some \<lparr> GPSInfo = gps, Make = Some ''Canon '', Model = Some ''EOS R5'',
                                pil_datetime = Some 1704110400000000 \<rparr>),
      exifread_process_file = (\<lambda>c. None),
      strftime_upload = (\<lambda>t. ''20240102_093000'') \<rparr>"

definition failing_processor_env :: processor_env where
  "failing_processor_env =
    \<lparr> heic_to_jpeg = (\<lambda>c. None), optimize_large = (\<lambda>c. None),
      upload_photo_with_thumbnail =
        (\<lambda>c f t m g. Inl (Exception ''Blob upload timeout - file too large or network issues'')),
      create_photo_raises = (\<lambda>p. None),
      strftime_job = (\<lambda>t. ''20240102_093000'') \<rparr>"


definition empty_pipeline :: pipeline_state where
  "empty_pipeline =
    \<lparr> photos_collection = [], processing_queue = [], processor_registered = True, slept = [],
      cleanup_calls = [] \<rparr>"

text \<open>
  The photo data \<open>process_upload\<close> returns for the example file with the first position,
  and the job \<open>queue_photo_for_processing\<close> makes of it.
\<close>

definition example_photo_data :: photo_data where
  "example_photo_data =
    \<lparr> pd_filename = ''photo_20240102_093000_0cc175b9.jpg'',
      pd_original_filename = ''IMG_0001.jpg'',
      pd_latitude = Some 39.0269, pd_longitude = Some (- 86.948), pd_altitude = Some 230,
      pd_timestamp = Some 1704110400000000,
      pd_file_size = 4,
      pd_mime_type = ''image/jpeg'',
      pd_camera_make = Some ''Canon'', pd_camera_model = Some ''EOS R5'',
      pd_tags = [], pd_description = None, pd_uploader_id = None,
      pd_hash_md5 = ''0cc175b9c0f1b6a831c399e269772661'',
      pd_processing_status = ''pending'',
      pd_coordinate_source = ''exif'',
      pd_file_content = example_jpeg,
      pd_validation_result =
        \<lparr> valid = True, vr_file_size = 4, dimensions = (640, 480), format = ''JPEG'',
          content_type = ''image/jpeg'' \<rparr> \<rparr>"

definition example_processing_job :: ProcessingJob where
  "example_processing_job =
    \<lparr> job_id = ''job_20240102_093000_0cc175b9'', job_photo_data = example_photo_data,
      job_status = PS_PENDING, job_created_at = 1704187800000000, retry_count = 0,
      job_error_message = None, job_photo_id = None, job_completed_at = None, job_failed_at = None \<rparr>"




section \<open>Progress of an export job\<close>





section \<open>Creating an export job\<close>

lemma validate_photo_ids_eq:
  "validate_photo_ids env ids =
     (filter (\<lambda>pid. db_get_photo env pid \<noteq> None) ids,
      map (\<lambda>pid. ''Photo ID '' @ pid @ '' not found, skipping'') (filter (\<lambda>pid. db_get_photo env pid = None) ids))"
  by (induction ids) (auto split: option.splits)

lemma ExportJob_new_fields:
  "export_id (ExportJob_new sf uuid now ids fmt cs alt inkmz thumbs req) = uuid"
  "status (ExportJob_new sf uuid now ids fmt cs alt inkmz thumbs req) = PENDING"
  "photo_ids (ExportJob_new sf uuid now ids fmt cs alt inkmz thumbs req) = ids"
  "export_type (ExportJob_new sf uuid now ids fmt cs alt inkmz thumbs req) = fmt"
  "ids \<noteq> [] \<Longrightarrow> total_photos (ExportJob_new sf uuid now ids fmt cs alt inkmz thumbs req) = int (length ids)"
  "expires_at (ExportJob_new sf uuid now ids fmt cs alt inkmz thumbs req) = Some (now + timedelta_hours 24)"
  "processed_photos (ExportJob_new sf uuid now ids fmt cs alt inkmz thumbs req) = 0"
  "file_path (ExportJob_new sf uuid now ids fmt cs alt inkmz thumbs req) = None"
  by (simp_all add: ExportJob_new_def ExportJob_init_def Let_def)

text \<open>
  Claim C5.  \<open>create_export_job\<close> keeps the requested ids that the persistence gateway
  resolves (in request order) and logs one warning for each of the others; it raises the
  no-valid-photos \<^verbatim>\<open>ValueError\<close>, leaving the job table and the queue as they were, exactly
  when no id is left; otherwise it returns a pending job over the valid ids, whose
  \<open>total_photos\<close> is their number, stored in the job table under its id, the id appended
  to the queue.
\<close>

theorem create_export_job_filters_ids:
  "(let valid_ids = filter (\<lambda>pid. db_get_photo env pid \<noteq> None) ids;
        missing = filter (\<lambda>pid. db_get_photo env pid = None) ids;
        job = ExportJob_new (strftime env) uuid now valid_ids fmt cs alt inkmz thumbs req;
        result = fst (create_export_job env uuid now ids fmt cs alt inkmz thumbs req self);
        self' = snd (create_export_job env uuid now ids fmt cs alt inkmz thumbs req self)
    in fst (validate_photo_ids env ids) = valid_ids
     \<and> warnings self' = warnings self @ map (\<lambda>pid. ''Photo ID '' @ pid @ '' not found, skipping'') missing
     \<and> fs self' = fs self
     \<and> ((\<exists>e. result = Inl e) = (valid_ids = []))
     \<and> (if valid_ids = []
         then result = Inl (ValueError ''No valid photos found for export'')
              \<and> active_jobs self' = active_jobs self \<and> job_queue self' = job_queue self
         else result = Inr job
              \<and> export_id job = uuid \<and> status job = PENDING \<and> photo_ids job = valid_ids
              \<and> total_photos job = int (length valid_ids)
              \<and> map_of (active_jobs self') uuid = Some job
              \<and> active_jobs self' = AList.update uuid job (active_jobs self)
              \<and> job_queue self' = job_queue self @ [uuid]))"
  by (simp add: create_export_job_def validate_photo_ids_eq Let_def ExportJob_new_fields update_conv')

text \<open>The scenario of the specification: two valid ids and one unknown id give a job with
  \<open>total_photos = 2\<close> and one warning.\<close>

theorem create_export_job_filters_ids_witness:
  "fst (example_request KMZ) = Inr job_of_two
   \<and> total_photos job_of_two = 2 \<and> photo_ids job_of_two = [''p1'', ''p2''] \<and> status job_of_two = PENDING
   \<and> job_queue (snd (example_request KMZ)) = [''job-1'']
   \<and> map_of (active_jobs (snd (example_request KMZ))) ''job-1'' = Some job_of_two
   \<and> warnings (snd (example_request KMZ)) = [''Photo ID p9 not found, skipping'']"
  using create_export_job_filters_ids [of example_export_env "[''p1'', ''p9'', ''p2'']" "''job-1''" 0 KMZ WGS84 True True True None ExportService_new]
  by (simp add: example_request_def example_export_env_def ExportService_new_def job_of_two_def Let_def)

section \<open>Expiry and cleanup of export jobs\<close>













section \<open>The photos-only export\<close>

lemma update_progress_keeps:
  "status (update_progress job n now) = status job"
  "file_path (update_progress job n now) = file_path job"
  "export_id (update_progress job n now) = export_id job"
  by (simp_all add: update_progress_def Let_def)

lemma add_photos_to_zip_keeps:
  "status (snd (add_photos_to_zip env now i photos zf job)) = status job
   \<and> file_path (snd (add_photos_to_zip env now i photos zf job)) = file_path job"
  by (induction photos arbitrary: i zf job) (auto simp: update_progress_keeps split: option.splits)

lemma add_photos_to_zip_names:
  "fst ` set (fst (add_photos_to_zip env now i photos zf job))
     \<subseteq> fst ` set zf \<union> (\<lambda>p. make_safe_filename (original_filename p)) ` set photos"
proof (induction photos arbitrary: i zf job)
  case Nil
  then show ?case by simp
next
  case (Cons photo rest)
  show ?case
  proof (cases "http_get env (blob_url photo)")
    case None
    then show ?thesis using Cons.IH [of "Suc i" zf job] by auto
  next
    case (Some content)
    then show ?thesis
      using Cons.IH [of "Suc i" "zf @ [(make_safe_filename (original_filename photo), content)]"
                        "update_progress job (int i + 1) now"]
      by auto
  qed
qed

lemma upload_export_file_attribute_error:
  "upload_export_file env job path = Inl (AttributeError ''ExportService object has no attribute export_directory'')"
  by (simp add: upload_export_file_def ExportService_attributes_def)

text \<open>
  Claim C9 (the code does not do what the claim says).  For every job of format
  \<open>PHOTOS_ONLY\<close> with at least one resolvable photo, whatever the downloads and the blob
  store do, \<open>_process_export_job\<close> ends with the job \<open>failed\<close>: the archive of the raw
  images is written, then \<open>_upload_export_file\<close> raises on the attribute
  \<open>export_directory\<close>, which the service does not have, and the handler records the
  failure.  The job gets no file path.
\<close>

theorem photos_only_export_fails:
  assumes "export_type job = PHOTOS_ONLY" and "get_photos_for_export env (photo_ids job) \<noteq> []"
  shows "status (fst (process_export_job env now job files)) = FAILED
       \<and> file_path (fst (process_export_job env now job files)) = file_path job
       \<and> error_message (fst (process_export_job env now job files))
           = Some ''Photos export failed: ExportService object has no attribute export_directory''"
  using assms add_photos_to_zip_keeps [of env now 0 "get_photos_for_export env (photo_ids job)" "[]" "mark_started job now"]
  by (simp add: process_export_job_def generate_photos_export_def mark_started_def mark_failed_def
        upload_export_file_attribute_error Let_def case_prod_beta)

text \<open>The theorem on the export request of the example, as \<open>PHOTOS_ONLY\<close>: both photos
  resolve and download, and the job fails.\<close>

theorem photos_only_export_fails_witness:
  "fst (example_request PHOTOS_ONLY) = Inr (job_of_two\<lparr>export_type := PHOTOS_ONLY, output_filename := Some ''export_20240101_120000.photos''\<rparr>)
   \<and> get_photos_for_export example_export_env [''p1'', ''p2''] = [example_photo ''p1'', example_photo ''p2'']
   \<and> status (fst (process_export_job example_export_env 7
        (job_of_two\<lparr>export_type := PHOTOS_ONLY, output_filename := Some ''export_20240101_120000.photos''\<rparr>) (\<lambda>p. None))) = FAILED
   \<and> file_path (fst (process_export_job example_export_env 7
        (job_of_two\<lparr>export_type := PHOTOS_ONLY, output_filename := Some ''export_20240101_120000.photos''\<rparr>) (\<lambda>p. None))) = None"
  using photos_only_export_fails [of "job_of_two\<lparr>export_type := PHOTOS_ONLY, output_filename := Some ''export_20240101_120000.photos''\<rparr>" example_export_env 7 "\<lambda>p. None"]
  by (simp add: example_request_def create_export_job_def example_export_env_def ExportService_new_def
        job_of_two_def ExportJob_new_def ExportJob_init_def Let_def)

section \<open>The life cycle of an export job\<close>




























section \<open>Validation of an uploaded file\<close>

lemma supported_types:
  "(map_of supported_formats ctype = None)
     = (ctype \<notin> set [''image/jpeg'', ''image/png'', ''image/tiff'', ''image/heic'', ''application/octet-stream''])"
  by (simp add: supported_formats_def)

text \<open>
  Claim C10.  \<open>validate_file\<close> raises exactly when the payload is longer than
  50 * 1024 * 1024 bytes, or the declared content type is none of \<open>image/jpeg\<close>,
  \<open>image/png\<close>, \<open>image/tiff\<close>, \<open>image/heic\<close> and \<open>application/octet-stream\<close>, or PIL
  fails to open and verify the bytes; what it raises is a \<^verbatim>\<open>ValueError\<close>.  Whether it raises
  does not depend on the file name: an extension that does not match the declared type
  adds a warning to a result that is otherwise the same.  For the declared type
  \<open>application/octet-stream\<close> only the size and the decoding decide.
\<close>

theorem validate_file_rejects_exactly:
  "((\<exists>e. validate_file env file_content fname ctype = Inl e)
      = (length file_content > 50 * 1024 * 1024
         \<or> ctype \<notin> set [''image/jpeg'', ''image/png'', ''image/tiff'', ''image/heic'', ''application/octet-stream'']
         \<or> image_open env file_content = None))
   \<and> (case validate_file env file_content fname ctype of
         Inl (ValueError msg) \<Rightarrow> True
       | Inl other \<Rightarrow> False
       | Inr (res, warns) \<Rightarrow>
           valid res \<and> vr_file_size res = length file_content \<and> content_type res = ctype
           \<and> image_open env file_content = Some (fst (dimensions res), snd (dimensions res), format res)
           \<and> length warns \<le> 1)
   \<and> ((\<exists>e. validate_file env file_content fname ctype = Inl e)
        = (\<exists>e. validate_file env file_content other_name ctype = Inl e))
   \<and> ((\<exists>e. validate_file env file_content fname ''application/octet-stream'' = Inl e)
        = (length file_content > 50 * 1024 * 1024 \<or> image_open env file_content = None))"
proof -
  have a: "\<And>n. (\<exists>e. validate_file env file_content n ctype = Inl e)
      = (length file_content > 50 * 1024 * 1024
         \<or> ctype \<notin> set [''image/jpeg'', ''image/png'', ''image/tiff'', ''image/heic'', ''application/octet-stream'']
         \<or> image_open env file_content = None)"
    using supported_types [of ctype]
    by (auto simp: validate_file_def max_file_size_def Let_def split: option.splits)
  have b: "case validate_file env file_content fname ctype of
         Inl (ValueError msg) \<Rightarrow> True
       | Inl other \<Rightarrow> False
       | Inr (res, warns) \<Rightarrow>
           valid res \<and> vr_file_size res = length file_content \<and> content_type res = ctype
           \<and> image_open env file_content = Some (fst (dimensions res), snd (dimensions res), format res)
           \<and> length warns \<le> 1"
    by (auto simp: validate_file_def Let_def split: option.splits)
  have c: "(\<exists>e. validate_file env file_content fname ''application/octet-stream'' = Inl e)
        = (length file_content > 50 * 1024 * 1024 \<or> image_open env file_content = None)"
    by (auto simp: validate_file_def max_file_size_def supported_formats_def Let_def split: option.splits)
  show ?thesis using a [of fname] a [of other_name] b c by simp
qed

lemma validate_examples:
  "validate_file (example_upload_env example_gps) example_jpeg ''IMG_0001.heic'' ''application/octet-stream''
     = Inr (\<lparr> valid = True, vr_file_size = 4, dimensions = (640, 480), format = ''JPEG'',
              content_type = ''application/octet-stream'' \<rparr>, [])"
  "validate_file (example_upload_env example_gps) example_jpeg ''photo.PNG'' ''image/jpeg''
     = Inr (\<lparr> valid = True, vr_file_size = 4, dimensions = (640, 480), format = ''JPEG'',
              content_type = ''image/jpeg'' \<rparr>,
            [''File extension .png doesn't match content type image/jpeg''])"
  "validate_file (example_upload_env example_gps) example_jpeg ''notes.txt'' ''text/plain''
     = Inl (ValueError ''Unsupported file type: text/plain'')"
  "validate_file (example_upload_env example_gps) [0, 1] ''a.jpg'' ''image/jpeg''
     = Inl (ValueError ''Invalid or corrupted image file'')"
  "validate_file (example_upload_env example_gps) (replicate (50 * 1024 * 1024 + 1) 0) ''a.jpg'' ''image/jpeg''
     = Inl (ValueError ''File size exceeds maximum'')"
  by (simp_all add: validate_file_def example_upload_env_def example_jpeg_def supported_formats_def
        max_file_size_def split_last_def lower_def lower_char_def lstrip_char_def Let_def)

text \<open>The theorem on the example file: accepted as \<open>application/octet-stream\<close>; accepted
  with a warning under a \<open>.PNG\<close> name declared \<open>image/jpeg\<close>; rejected for an unsupported
  type, for bytes PIL does not open, and for one byte more than 50 MB.\<close>

theorem validate_file_rejects_exactly_witness:
  "validate_file (example_upload_env example_gps) example_jpeg ''IMG_0001.heic'' ''application/octet-stream''
     = Inr (\<lparr> valid = True, vr_file_size = 4, dimensions = (640, 480), format = ''JPEG'',
              content_type = ''application/octet-stream'' \<rparr>, [])
   \<and> validate_file (example_upload_env example_gps) example_jpeg ''photo.PNG'' ''image/jpeg''
     = Inr (\<lparr> valid = True, vr_file_size = 4, dimensions = (640, 480), format = ''JPEG'',
              content_type = ''image/jpeg'' \<rparr>,
            [''File extension .png doesn't match content type image/jpeg''])
   \<and> validate_file (example_upload_env example_gps) example_jpeg ''notes.txt'' ''text/plain''
     = Inl (ValueError ''Unsupported file type: text/plain'')
   \<and> validate_file (example_upload_env example_gps) [0, 1] ''a.jpg'' ''image/jpeg''
     = Inl (ValueError ''Invalid or corrupted image file'')
   \<and> validate_file (example_upload_env example_gps) (replicate (50 * 1024 * 1024 + 1) 0) ''a.jpg'' ''image/jpeg''
     = Inl (ValueError ''File size exceeds maximum'')
   \<and> ((\<exists>e. validate_file (example_upload_env example_gps) example_jpeg ''photo.PNG'' ''image/jpeg'' = Inl e)
        = (\<exists>e. validate_file (example_upload_env example_gps) example_jpeg ''photo.jpg'' ''image/jpeg'' = Inl e))"
proof -
  have same: "(\<exists>e. validate_file (example_upload_env example_gps) example_jpeg ''photo.PNG'' ''image/jpeg'' = Inl e)
        = (\<exists>e. validate_file (example_upload_env example_gps) example_jpeg ''photo.jpg'' ''image/jpeg'' = Inl e)"
    using validate_file_rejects_exactly [of "example_upload_env example_gps" example_jpeg "''photo.PNG''" "''image/jpeg''" "''photo.jpg''"]
    by (elim conjE)
  show ?thesis
    using validate_examples same by (intro conjI)
qed

section \<open>GPS coordinates from EXIF\<close>


lemma example_gps_parsed:
  "parse_gps_coordinates example_gps = (Some 39.0269, Some (- 86.948), Some 230)"
  by (simp add: parse_gps_coordinates_def example_gps_def)

section \<open>Coordinates of an upload\<close>

lemma example_validate:
  "validate_file (example_upload_env gps) example_jpeg ''IMG_0001.jpg'' ''image/jpeg''
     = Inr (\<lparr> valid = True, vr_file_size = 4, dimensions = (640, 480), format = ''JPEG'',
              content_type = ''image/jpeg'' \<rparr>, [])"
  by (simp add: validate_file_def example_upload_env_def example_jpeg_def supported_formats_def
        max_file_size_def split_last_def lower_def lower_char_def lstrip_char_def Let_def)

lemma example_exif:
  "extract_exif_data (example_upload_env example_gps) example_jpeg
     = Some \<lparr> exif_latitude = Some 39.0269, exif_longitude = Some (- 86.948), exif_altitude = Some 230,
              exif_camera_make = Some ''Canon'', exif_camera_model = Some ''EOS R5'',
              exif_datetime_taken = Some 1704110400000000 \<rparr>"
  by (simp add: extract_exif_data_def extract_exif_pil_def example_upload_env_def parse_gps_coordinates_def
        example_gps_def get_latitude_def get_longitude_def truthy_def strip_or_none_def strip_def is_space_def
        Let_def)

lemma equator_exif:
  "extract_exif_data (example_upload_env equator_gps) example_jpeg
     = Some \<lparr> exif_latitude = Some 0, exif_longitude = Some 10, exif_altitude = None,
              exif_camera_make = Some ''Canon'', exif_camera_model = Some ''EOS R5'',
              exif_datetime_taken = Some 1704110400000000 \<rparr>"
  by (simp add: extract_exif_data_def extract_exif_pil_def extract_exif_exifread_def example_upload_env_def
        parse_gps_coordinates_def
        equator_gps_def get_latitude_def get_longitude_def truthy_def strip_or_none_def strip_def is_space_def
        Let_def)

text \<open>
  Claim C3 (the code does not do what the claim says).  A file whose EXIF position is
  latitude 0 (on the equator), longitude 10 E: the extraction yields latitude \<open>0.0\<close> and
  longitude \<open>10.0\<close>, which are valid coordinates, and with no manual coordinates
  \<open>process_upload\<close> raises the no-coordinates error, because it tests the EXIF values for
  truth and \<open>0.0\<close> is false.  The same position supplied manually is accepted with source
  \<open>manual\<close>, and the EXIF position 39.0269, -86.948 is accepted with source \<open>exif\<close>.
\<close>

theorem process_upload_equator_rejected:
  "get_latitude (extract_exif_data (example_upload_env equator_gps) example_jpeg) = Some 0
   \<and> get_longitude (extract_exif_data (example_upload_env equator_gps) example_jpeg) = Some 10
   \<and> validate_coordinates 0 10 None = Inr (0, 10, None)
   \<and> process_upload (example_upload_env equator_gps) 1704187800000000 example_jpeg ''IMG_0001.jpg'' ''image/jpeg''
        None None None None
      = Inl no_coordinates_error
   \<and> map_sum (\<lambda>e. e) (\<lambda>pd. (pd_latitude pd, pd_longitude pd, pd_coordinate_source pd))
        (process_upload (example_upload_env equator_gps) 1704187800000000 example_jpeg ''IMG_0001.jpg'' ''image/jpeg''
           (Some \<lparr> manual_latitude = Some 0, manual_longitude = Some 10, manual_altitude = None \<rparr>) None None None)
      = Inr (Some 0, Some 10, ''manual'')
   \<and> map_sum (\<lambda>e. e) (\<lambda>pd. (pd_latitude pd, pd_longitude pd, pd_coordinate_source pd))
        (process_upload (example_upload_env example_gps) 1704187800000000 example_jpeg ''IMG_0001.jpg'' ''image/jpeg''
           None None None None)
      = Inr (Some 39.0269, Some (- 86.948), ''exif'')"
  by (simp add: process_upload_def example_validate equator_exif example_exif get_latitude_def get_longitude_def
        get_altitude_def truthy_def validate_coordinates_def Let_def)

text \<open>The rejected upload, read off the theorem: the EXIF position on the equator ends in
  the no-coordinates error.\<close>

theorem process_upload_equator_rejected_witness:
  "process_upload (example_upload_env equator_gps) 1704187800000000 example_jpeg ''IMG_0001.jpg'' ''image/jpeg''
        None None None None
      = Inl no_coordinates_error
   \<and> get_latitude (extract_exif_data (example_upload_env equator_gps) example_jpeg) = Some 0
   \<and> get_longitude (extract_exif_data (example_upload_env equator_gps) example_jpeg) = Some 10"
  using process_upload_equator_rejected by (elim conjE) (intro conjI)

text \<open>
  What \<open>process_upload\<close> does for every input: without manual coordinates and without a
  true EXIF latitude and longitude it raises the no-coordinates error; a result carries
  the manual coordinates with source \<open>manual\<close> when they were supplied, and else the EXIF
  coordinates with source \<open>exif\<close>.
\<close>

lemma process_upload_no_coordinates:
  assumes "validate_file env file_content fname ctype = Inr (validation, warns)"
    and "\<not> (truthy (get_latitude (extract_exif_data env file_content))
            \<and> truthy (get_longitude (extract_exif_data env file_content)))"
  shows "process_upload env now file_content fname ctype None tgs descr uploader = Inl no_coordinates_error"
  using assms
  by (auto simp: process_upload_def Let_def split: option.splits sum.splits)

lemma process_upload_source:
  assumes "process_upload env now file_content fname ctype manual tgs descr uploader = Inr pd"
  shows "(case manual of
            Some m \<Rightarrow> pd_coordinate_source pd = ''manual'' \<and> pd_latitude pd = manual_latitude m
                       \<and> pd_longitude pd = manual_longitude m \<and> pd_altitude pd = manual_altitude m
          | None \<Rightarrow> pd_coordinate_source pd = ''exif''
                       \<and> pd_latitude pd = get_latitude (extract_exif_data env file_content)
                       \<and> pd_longitude pd = get_longitude (extract_exif_data env file_content)
                       \<and> pd_altitude pd = get_altitude (extract_exif_data env file_content))
         \<and> pd_latitude pd \<noteq> None \<and> pd_longitude pd \<noteq> None
         \<and> pd_hash_md5 pd = md5_hexdigest env file_content
         \<and> pd_file_content pd = file_content"
  using assms
  by (auto simp: process_upload_def Let_def truthy_def calculate_file_hash_def split: option.splits sum.splits prod.splits if_splits)

section \<open>Retry and failure of an ingestion job\<close>

lemma failure_handling:
  assumes "snd (run_pipeline env uuid now (job_photo_data job)) = Inl e"
  shows "retry_count (fst (process_photo_job env uuid now job st)) = retry_count job + 1
   \<and> job_error_message (fst (process_photo_job env uuid now job st)) = Some (str_of e)
   \<and> job_photo_data (fst (process_photo_job env uuid now job st)) = fst (run_pipeline env uuid now (job_photo_data job))
   \<and> photos_collection (snd (process_photo_job env uuid now job st)) = photos_collection st
   \<and> (if retry_count job + 1 < 3
       then job_status (fst (process_photo_job env uuid now job st)) = PS_RETRY
            \<and> slept (snd (process_photo_job env uuid now job st)) = slept st @ [5 * (retry_count job + 1)]
            \<and> processing_queue (snd (process_photo_job env uuid now job st))
                = processing_queue st @ [fst (process_photo_job env uuid now job st)]
            \<and> cleanup_calls (snd (process_photo_job env uuid now job st)) = cleanup_calls st
       else job_status (fst (process_photo_job env uuid now job st)) = PS_FAILED
            \<and> slept (snd (process_photo_job env uuid now job st)) = slept st
            \<and> processing_queue (snd (process_photo_job env uuid now job st)) = processing_queue st
            \<and> cleanup_calls (snd (process_photo_job env uuid now job st))
                = cleanup_calls st @ [(pd_filename (fst (run_pipeline env uuid now (job_photo_data job))),
                                       pd_timestamp (fst (run_pipeline env uuid now (job_photo_data job))))])"
  using assms
  by (cases "run_pipeline env uuid now (job_photo_data job)")
     (simp add: process_photo_job_def max_retries_def retry_delay_def Let_def)

text \<open>
  Claim C2.  When a step of the pipeline raises (whichever step), \<open>_process_photo_job\<close>
  adds one to the retry count of the job and records the message.  While the new count is
  below 3 it sets the status \<open>retry\<close>, sleeps \<open>retry_delay * retry_count\<close> = 5 times the new
  count seconds, and puts the job back on the queue; the blob cleanup is not called.  Once
  the new count is 3 or more it sets the status \<open>failed\<close>, does not sleep, does not put
  the job back, and calls the blob cleanup exactly once, for the file name and timestamp
  the photo data holds.  No photo record is written either way.
\<close>

theorem process_photo_job_on_failure:
  assumes "snd (run_pipeline env uuid now (job_photo_data job)) = Inl e"
  shows "retry_count (fst (process_photo_job env uuid now job st)) = retry_count job + 1
   \<and> job_error_message (fst (process_photo_job env uuid now job st)) = Some (str_of e)
   \<and> job_photo_data (fst (process_photo_job env uuid now job st)) = fst (run_pipeline env uuid now (job_photo_data job))
   \<and> photos_collection (snd (process_photo_job env uuid now job st)) = photos_collection st
   \<and> (if retry_count job + 1 < 3
       then job_status (fst (process_photo_job env uuid now job st)) = PS_RETRY
            \<and> slept (snd (process_photo_job env uuid now job st)) = slept st @ [5 * (retry_count job + 1)]
            \<and> processing_queue (snd (process_photo_job env uuid now job st))
                = processing_queue st @ [fst (process_photo_job env uuid now job st)]
            \<and> cleanup_calls (snd (process_photo_job env uuid now job st)) = cleanup_calls st
       else job_status (fst (process_photo_job env uuid now job st)) = PS_FAILED
            \<and> slept (snd (process_photo_job env uuid now job st)) = slept st
            \<and> processing_queue (snd (process_photo_job env uuid now job st)) = processing_queue st
            \<and> cleanup_calls (snd (process_photo_job env uuid now job st))
                = cleanup_calls st @ [(pd_filename (fst (run_pipeline env uuid now (job_photo_data job))),
                                       pd_timestamp (fst (run_pipeline env uuid now (job_photo_data job))))])"
  using assms by (rule failure_handling)

lemma failing_pipeline:
  "run_pipeline failing_processor_env uuid now example_photo_data
     = (example_photo_data, Inl (Exception ''Blob upload timeout - file too large or network issues''))"
  by (simp add: run_pipeline_def failing_processor_env_def example_photo_data_def example_jpeg_def
        convert_image_format_def truthy_def validate_coordinates_def Let_def)

lemma failing_run:
  "run_worker failing_processor_env uuids clock 0 3 (empty_pipeline\<lparr>processing_queue := [example_processing_job]\<rparr>)
     = \<lparr> photos_collection = [], processing_queue = [], processor_registered = True, slept = [5, 10],
         cleanup_calls = [(''photo_20240102_093000_0cc175b9.jpg'', Some 1704110400000000)] \<rparr>"
  by (simp add: eval_nat_numeral worker_step_def process_photo_job_def failing_pipeline
        example_processing_job_def empty_pipeline_def max_retries_def retry_delay_def Let_def)
     (simp add: example_photo_data_def)

lemma failing_run_two:
  "map (\<lambda>j. (job_status j, retry_count j, job_error_message j))
     (processing_queue (run_worker failing_processor_env uuids clock 0 2
        (empty_pipeline\<lparr>processing_queue := [example_processing_job]\<rparr>)))
     = [(PS_RETRY, 2, Some ''Blob upload timeout - file too large or network issues'')]"
  by (simp add: eval_nat_numeral worker_step_def process_photo_job_def failing_pipeline
        example_processing_job_def empty_pipeline_def max_retries_def retry_delay_def Let_def)

lemma failing_run_more:
  "run_worker failing_processor_env uuids clock 0 5 (empty_pipeline\<lparr>processing_queue := [example_processing_job]\<rparr>)
     = run_worker failing_processor_env uuids clock 0 3 (empty_pipeline\<lparr>processing_queue := [example_processing_job]\<rparr>)"
proof -
  have "run_worker failing_processor_env uuids clock 0 (3 + 2) (empty_pipeline\<lparr>processing_queue := [example_processing_job]\<rparr>)
      = run_worker failing_processor_env uuids clock 3 2
          (run_worker failing_processor_env uuids clock 0 3 (empty_pipeline\<lparr>processing_queue := [example_processing_job]\<rparr>))"
    by (simp add: eval_nat_numeral)
  then show ?thesis
    by (simp add: failing_run) (simp add: eval_nat_numeral worker_step_def)
qed

text \<open>
  With a pipeline that fails on every attempt, a job that starts at count 0 is attempted
  three times: the worker sleeps 5 and then 10 seconds, calls the cleanup once, and
  leaves the queue empty.
\<close>

lemma worker_step_failing:
  assumes "\<forall>uuid now pd. \<exists>e. snd (run_pipeline env uuid now pd) = Inl e"
    and "processing_queue st = [job]"
  shows "photos_collection (worker_step env uuid now st) = photos_collection st
   \<and> (if retry_count job + 1 < 3
       then (\<exists>job'. processing_queue (worker_step env uuid now st) = [job'] \<and> retry_count job' = retry_count job + 1
               \<and> job_status job' = PS_RETRY)
            \<and> slept (worker_step env uuid now st) = slept st @ [5 * (retry_count job + 1)]
            \<and> cleanup_calls (worker_step env uuid now st) = cleanup_calls st
       else processing_queue (worker_step env uuid now st) = []
            \<and> slept (worker_step env uuid now st) = slept st
            \<and> length (cleanup_calls (worker_step env uuid now st)) = length (cleanup_calls st) + 1)"
proof -
  obtain e where e: "snd (run_pipeline env uuid now (job_photo_data job)) = Inl e"
    using assms(1) by blast
  show ?thesis
    using assms(2) failure_handling [OF e, of "st\<lparr>processing_queue := []\<rparr>"]
    by (simp add: worker_step_def split: if_splits)
qed

lemma always_failing_three_attempts:
  assumes fail: "\<forall>uuid now pd. \<exists>e. snd (run_pipeline env uuid now pd) = Inl e"
    and "retry_count job = 0" and "processing_queue st = [job]"
  shows "processing_queue (run_worker env uuids clock k 3 st) = []
   \<and> slept (run_worker env uuids clock k 3 st) = slept st @ [5, 10]
   \<and> length (cleanup_calls (run_worker env uuids clock k 3 st)) = length (cleanup_calls st) + 1
   \<and> photos_collection (run_worker env uuids clock k 3 st) = photos_collection st"
proof -
  let ?s1 = "worker_step env (uuids k) (clock k) st"
  have s1: "photos_collection ?s1 = photos_collection st \<and> slept ?s1 = slept st @ [5]
      \<and> cleanup_calls ?s1 = cleanup_calls st
      \<and> (\<exists>j1. processing_queue ?s1 = [j1] \<and> retry_count j1 = 1)"
    using worker_step_failing [OF fail assms(3), of "uuids k" "clock k"] assms(2) by auto
  then obtain j1 where j1: "processing_queue ?s1 = [j1]" "retry_count j1 = 1" by blast
  let ?s2 = "worker_step env (uuids (Suc k)) (clock (Suc k)) ?s1"
  have s2: "photos_collection ?s2 = photos_collection ?s1 \<and> slept ?s2 = slept ?s1 @ [10]
      \<and> cleanup_calls ?s2 = cleanup_calls ?s1
      \<and> (\<exists>j2. processing_queue ?s2 = [j2] \<and> retry_count j2 = 2)"
    using worker_step_failing [OF fail j1(1), of "uuids (Suc k)" "clock (Suc k)"] j1(2) by auto
  then obtain j2 where j2: "processing_queue ?s2 = [j2]" "retry_count j2 = 2" by blast
  let ?s3 = "worker_step env (uuids (Suc (Suc k))) (clock (Suc (Suc k))) ?s2"
  have s3: "photos_collection ?s3 = photos_collection ?s2 \<and> slept ?s3 = slept ?s2
      \<and> length (cleanup_calls ?s3) = length (cleanup_calls ?s2) + 1
      \<and> processing_queue ?s3 = []"
    using worker_step_failing [OF fail j2(1), of "uuids (Suc (Suc k))" "clock (Suc (Suc k))"] j2(2) by auto
  have run: "run_worker env uuids clock k 3 st = ?s3"
    by (simp add: eval_nat_numeral)
  show ?thesis using s1 s2 s3 run by simp
qed

text \<open>
  The theorem on the example job with a blob upload that always times out: the first
  failure gives count 1, status \<open>retry\<close> and a sleep of 5 seconds; three iterations of the
  worker empty the queue after sleeps of 5 and 10 seconds and one cleanup call, and
  further iterations change nothing.
\<close>

theorem process_photo_job_on_failure_witness:
  "snd (run_pipeline failing_processor_env ''photo-id'' 7 (job_photo_data example_processing_job))
     = Inl (Exception ''Blob upload timeout - file too large or network issues'')
   \<and> retry_count (fst (process_photo_job failing_processor_env ''photo-id'' 7 example_processing_job empty_pipeline)) = 1
   \<and> job_status (fst (process_photo_job failing_processor_env ''photo-id'' 7 example_processing_job empty_pipeline)) = PS_RETRY
   \<and> slept (snd (process_photo_job failing_processor_env ''photo-id'' 7 example_processing_job empty_pipeline)) = [5]
   \<and> run_worker failing_processor_env (\<lambda>k. ''photo-id'') (\<lambda>k. 7 + int k) 0 3
        (empty_pipeline\<lparr>processing_queue := [example_processing_job]\<rparr>)
      = \<lparr> photos_collection = [], processing_queue = [], processor_registered = True, slept = [5, 10],
          cleanup_calls = [(''photo_20240102_093000_0cc175b9.jpg'', Some 1704110400000000)] \<rparr>
   \<and> run_worker failing_processor_env (\<lambda>k. ''photo-id'') (\<lambda>k. 7 + int k) 0 5
        (empty_pipeline\<lparr>processing_queue := [example_processing_job]\<rparr>)
      = run_worker failing_processor_env (\<lambda>k. ''photo-id'') (\<lambda>k. 7 + int k) 0 3
        (empty_pipeline\<lparr>processing_queue := [example_processing_job]\<rparr>)"
proof -
  have f: "snd (run_pipeline failing_processor_env ''photo-id'' 7 (job_photo_data example_processing_job))
     = Inl (Exception ''Blob upload timeout - file too large or network issues'')"
    by (simp add: example_processing_job_def failing_pipeline)
  have rc0: "retry_count example_processing_job = 0" "slept empty_pipeline = []"
    by (simp_all add: example_processing_job_def empty_pipeline_def)
  have step: "retry_count (fst (process_photo_job failing_processor_env ''photo-id'' 7 example_processing_job empty_pipeline)) = 1
   \<and> job_status (fst (process_photo_job failing_processor_env ''photo-id'' 7 example_processing_job empty_pipeline)) = PS_RETRY
   \<and> slept (snd (process_photo_job failing_processor_env ''photo-id'' 7 example_processing_job empty_pipeline)) = [5]"
    using process_photo_job_on_failure [OF f, of empty_pipeline] rc0 by simp
  show ?thesis
    using f step failing_run [of "\<lambda>k. ''photo-id''" "\<lambda>k. 7 + int k"] failing_run_more [of "\<lambda>k. ''photo-id''" "\<lambda>k. 7 + int k"]
    by (intro conjI) simp_all
qed

section \<open>Duplicate uploads\<close>


lemma upload_photo_duplicate_general:
  assumes "process_upload uenv now file_content fname ctype None
             (case tgs of None \<Rightarrow> None | Some t \<Rightarrow> if t = [] then None else Some (split_on CHR '','' t))
             descr uploader = Inr pd"
    and "get_photos_by_hash (photos_collection st) (calculate_file_hash uenv file_content) = existing # others"
  shows "upload_photo uenv penv now file_content fname ctype tgs descr uploader st
           = (Inr (Duplicate (photo_id existing)), st)"
proof -
  have "pd_hash_md5 pd = calculate_file_hash uenv file_content"
    using assms(1)
    by (auto simp: process_upload_def Let_def split: option.splits sum.splits prod.splits if_splits)
  then show ?thesis using assms by (simp add: upload_photo_def)
qed

lemma process_upload_hash:
  assumes "process_upload uenv now file_content fname ctype manual tgs descr uploader = Inr pd"
  shows "pd_hash_md5 pd = calculate_file_hash uenv file_content"
  using assms
  by (auto simp: process_upload_def Let_def split: option.splits sum.splits prod.splits if_splits)

lemma run_pipeline_photo:
  assumes "snd (run_pipeline penv uuid now pd) = Inr photo"
  shows "photo_id photo = uuid \<and> hash_md5 photo = pd_hash_md5 pd"
  using assms
  by (auto simp: run_pipeline_def Let_def split: option.splits sum.splits prod.splits if_splits)

lemma worker_step_success:
  assumes "processing_queue st = [job]" and "snd (run_pipeline penv uuid now (job_photo_data job)) = Inr photo"
  shows "photos_collection (worker_step penv uuid now st) = photos_collection st @ [photo]
       \<and> processing_queue (worker_step penv uuid now st) = []"
  using assms
  by (cases "run_pipeline penv uuid now (job_photo_data job)")
     (simp add: worker_step_def process_photo_job_def Let_def)

lemma upload_photo_queued:
  assumes "upload_photo uenv penv now file_content fname ctype tgs descr uploader st = (Inr (Queued jid pd), st')"
  shows "get_photos_by_hash (photos_collection st) (calculate_file_hash uenv file_content) = []
       \<and> pd_hash_md5 pd = calculate_file_hash uenv file_content
       \<and> photos_collection st' = photos_collection st
       \<and> (\<exists>job. processing_queue st' = processing_queue st @ [job] \<and> job_photo_data job = pd \<and> retry_count job = 0)"
proof -
  obtain pd0 where pd0: "process_upload uenv now file_content fname ctype None
             (case tgs of None \<Rightarrow> None | Some t \<Rightarrow> if t = [] then None else Some (split_on CHR '','' t))
             descr uploader = Inr pd0"
    using assms by (auto simp: upload_photo_def split: sum.splits)
  have h: "pd_hash_md5 pd0 = calculate_file_hash uenv file_content"
    using pd0 by (rule process_upload_hash)
  show ?thesis
    using assms pd0 h
    by (auto simp: upload_photo_def queue_photo_for_processing_def Let_def split: list.splits if_splits)
qed

text \<open>
  The two submissions in sequence: when the first is queued on an idle worker and its
  pipeline succeeds, storing the record under the id \<open>uuid\<close>, a later submission of the
  same bytes that passes \<open>process_upload\<close> resolves to \<open>uuid\<close> and leaves the state as it
  is.
\<close>

lemma second_upload_resolves_to_first:
  assumes first: "upload_photo uenv penv now1 file_content f1 c1 t1 d1 u1 st0 = (Inr (Queued jid pd1), st1)"
    and idle: "processing_queue st0 = []"
    and stored: "snd (run_pipeline penv uuid now2 pd1) = Inr photo"
    and passes: "process_upload uenv now3 file_content f2 c2 None
             (case t2 of None \<Rightarrow> None | Some t \<Rightarrow> if t = [] then None else Some (split_on CHR '','' t))
             d2 u2 = Inr pd2"
  shows "photos_collection (worker_step penv uuid now2 st1) = photos_collection st0 @ [photo]
       \<and> upload_photo uenv penv now3 file_content f2 c2 t2 d2 u2 (worker_step penv uuid now2 st1)
           = (Inr (Duplicate uuid), worker_step penv uuid now2 st1)"
proof -
  from upload_photo_queued [OF first] idle obtain job where
      none: "get_photos_by_hash (photos_collection st0) (calculate_file_hash uenv file_content) = []"
      and h1: "pd_hash_md5 pd1 = calculate_file_hash uenv file_content"
      and same: "photos_collection st1 = photos_collection st0"
      and q: "processing_queue st1 = [job]" "job_photo_data job = pd1"
    by auto
  have ph: "photo_id photo = uuid \<and> hash_md5 photo = pd_hash_md5 pd1"
    using stored by (rule run_pipeline_photo)
  have w: "photos_collection (worker_step penv uuid now2 st1) = photos_collection st1 @ [photo]"
    using worker_step_success [OF q(1), of penv uuid now2 photo] stored q(2) by simp
  have found: "get_photos_by_hash (photos_collection (worker_step penv uuid now2 st1))
                 (calculate_file_hash uenv file_content) = [photo]"
    using w same none ph h1 by (simp add: get_photos_by_hash_def)
  show ?thesis
    using upload_photo_duplicate_general [OF passes found, of penv] w same ph by simp
qed













end
